theory Spec2Isabelle
  imports
    Main
    "HOL-Library.AList"
    "HOL-Library.Char_ord"
    "HOL-Library.List_Lexorder"
    "HOL-Library.Product_Lexorder"
begin

section \<open>The deterministic evidence analyzer (lambdas/deterministic/app.py)\<close>

text \<open>
  A shallow embedding of the pure part of the analyzer: the text extractors, the attempt
  selector, the validation parser, the risk scorer and the status classifier. What the
  handler reads from the object store is an argument of the model: a fetched text is a
  \<open>string option\<close> (\<open>None\<close> when the object does not exist), a listing is a list of
  objects.

  Python's \<open>str\<close> is modelled by \<open>string\<close>, and the character classes, the case
  mapping and the line boundaries are Python's on ASCII text, the character set of the
  logs and proof files the analyzer reads: what Python does with the characters beyond
  ASCII (further digits, spaces and line boundaries, letters whose upper case is longer)
  is outside the model. Python's \<open>int\<close> is \<open>int\<close>; a dictionary is the list of its
  items in insertion order.
\<close>

subsection \<open>Characters and strings\<close>

definition is_digit :: "char \<Rightarrow> bool" where
  "is_digit c = (c \<in> set ''0123456789'')"

text \<open>\<open>str.isspace\<close> and the class \<open>\s\<close> on ASCII: tab, line feed, vertical tab, form
  feed, carriage return, the four separators 0x1C to 0x1F, and the space.\<close>

definition py_space_chars :: "char list" where
  "py_space_chars =
     [CHR 0x09, CHR 0x0A, CHR 0x0B, CHR 0x0C, CHR 0x0D,
      CHR 0x1C, CHR 0x1D, CHR 0x1E, CHR 0x1F, CHR 0x20]"

definition is_space :: "char \<Rightarrow> bool" where
  "is_space c = (c \<in> set py_space_chars)"

definition lower_letters :: string where
  "lower_letters = ''abcdefghijklmnopqrstuvwxyz''"

definition upper_letters :: string where
  "upper_letters = ''ABCDEFGHIJKLMNOPQRSTUVWXYZ''"

definition upper_char :: "char \<Rightarrow> char" where
  "upper_char c = (case map_of (zip lower_letters upper_letters) c of Some u \<Rightarrow> u | None \<Rightarrow> c)"

definition lower_char :: "char \<Rightarrow> char" where
  "lower_char c = (case map_of (zip upper_letters lower_letters) c of Some l \<Rightarrow> l | None \<Rightarrow> c)"

text \<open>\<open>str.upper()\<close>\<close>

definition upper :: "string \<Rightarrow> string" where
  "upper s = map upper_char s"

text \<open>The class \<open>\w\<close>: letters, digits and the underscore.\<close>

definition is_word :: "char \<Rightarrow> bool" where
  "is_word c = (c \<in> set lower_letters \<or> c \<in> set upper_letters \<or> is_digit c \<or> c = CHR ''_'')"

text \<open>\<open>str.strip()\<close>\<close>

definition strip :: "string \<Rightarrow> string" where
  "strip s = rev (dropWhile is_space (rev (dropWhile is_space s)))"

text \<open>\<open>str.startswith\<close>, \<open>str.endswith\<close> and the substring test \<open>sub in s\<close>.\<close>

fun startswith :: "string \<Rightarrow> string \<Rightarrow> bool" where
  "startswith s [] = True"
| "startswith [] (p # ps) = False"
| "startswith (c # cs) (p # ps) = (c = p \<and> startswith cs ps)"

definition endswith :: "string \<Rightarrow> string \<Rightarrow> bool" where
  "endswith s p = startswith (rev s) (rev p)"


text \<open>\<open>str.splitlines()\<close>: a line ends at a line feed, a carriage return (with the line
  feed that follows it, if any), a vertical tab, a form feed or one of the separators 0x1C,
  0x1D, 0x1E; the text after the last boundary is a line only when it is not empty.\<close>

definition is_linebreak :: "char \<Rightarrow> bool" where
  "is_linebreak c = (c \<in> set [CHR 0x0A, CHR 0x0D, CHR 0x0B, CHR 0x0C, CHR 0x1C, CHR 0x1D, CHR 0x1E])"

fun splitlines_acc :: "string \<Rightarrow> string \<Rightarrow> string list" where
  "splitlines_acc cur [] = (if cur = [] then [] else [rev cur])"
| "splitlines_acc cur (c # cs) =
     (if c = CHR 0x0D then
        (case cs of
           d # ds \<Rightarrow> if d = CHR 0x0A then rev cur # splitlines_acc [] ds
                     else rev cur # splitlines_acc [] cs
         | [] \<Rightarrow> rev cur # splitlines_acc [] cs)
      else if is_linebreak c then rev cur # splitlines_acc [] cs
      else splitlines_acc (c # cur) cs)"

definition splitlines :: "string \<Rightarrow> string list" where
  "splitlines s = splitlines_acc [] s"



text \<open>\<open>str.replace(old, new)\<close>: the occurrences of \<open>old\<close> are replaced from left to
  right, without overlap. For an empty \<open>old\<close> Python puts \<open>new\<close> before every character
  and at the end.\<close>

fun replace_ne :: "string \<Rightarrow> string \<Rightarrow> string \<Rightarrow> string" where
  "replace_ne old new [] = []"
| "replace_ne old new (c # cs) =
     (if startswith (c # cs) old
      then new @ replace_ne old new (drop (length old - 1) cs)
      else c # replace_ne old new cs)"

definition replace :: "string \<Rightarrow> string \<Rightarrow> string \<Rightarrow> string" where
  "replace s old new =
     (if old = [] then new @ concat (map (\<lambda>c. c # new) s) else replace_ne old new s)"

text \<open>\<open>int(s)\<close> on a string of decimal digits, the only strings the analyzer passes to
  it (each is the text of a group \<open>\d+\<close> or \<open>\d{1,12}\<close>). CPython raises ValueError for
  more than 4300 digits (the default limit of the conversion); \<open>None\<close> is the raise.\<close>

definition digit_val :: "char \<Rightarrow> int" where
  "digit_val c = (case map_of (zip ''0123456789'' [0, 1, 2, 3, 4, 5, 6, 7, 8, 9]) c of
                    Some v \<Rightarrow> v | None \<Rightarrow> 0)"

definition int_of_digits :: "string \<Rightarrow> int" where
  "int_of_digits ds = fold (\<lambda>c n. 10 * n + digit_val c) ds 0"

definition py_int :: "string \<Rightarrow> int option" where
  "py_int ds =
     (if ds \<noteq> [] \<and> list_all is_digit ds \<and> length ds \<le> 4300 then Some (int_of_digits ds)
      else None)"

text \<open>\<open>str(n)\<close> of an integer, for the f-strings.\<close>

fun str_nat :: "nat \<Rightarrow> string" where
  "str_nat n =
     (if n < 10 then [''0123456789'' ! n]
      else str_nat (n div 10) @ [''0123456789'' ! (n mod 10)])"

definition str_int :: "int \<Rightarrow> string" where
  "str_int i = (if i < 0 then CHR ''-'' # str_nat (nat (- i)) else str_nat (nat i))"

subsection \<open>Regular expressions\<close>

text \<open>
  The fragment of Python's \<open>re\<close> that the patterns of the module use: a literal string,
  a greedy bounded repetition of a character class (\<open>\s+\<close>, \<open>\d{1,12}\<close>), concatenation,
  a greedy optional part, one capturing group, \<open>\b\<close>, \<open>^\<close> and \<open>$\<close>. A pattern is the
  expression and its IGNORECASE flag.

  The matcher is the backtracking one: from a state (the text consumed so far, reversed;
  the rest; the text of group 1) an expression gives the list of the states it can end
  in, in Python's order of preference, and a match is the first of them.
\<close>

datatype cclass = Space | Digit

datatype rx =
    Str string
  | Rep cclass nat "nat option"
  | Seq rx rx
  | Opt rx
  | Grp rx
  | WordB
  | Bol
  | Eol

type_synonym mstate = "string \<times> string \<times> string option"

fun class_ok :: "cclass \<Rightarrow> char \<Rightarrow> bool" where
  "class_ok Space c = is_space c"
| "class_ok Digit c = is_digit c"

definition char_eq :: "bool \<Rightarrow> char \<Rightarrow> char \<Rightarrow> bool" where
  "char_eq ic p c = (if ic then lower_char c = lower_char p else c = p)"

fun str_run :: "bool \<Rightarrow> string \<Rightarrow> mstate \<Rightarrow> mstate list" where
  "str_run ic [] st = [st]"
| "str_run ic (p # ps) (b, [], g) = []"
| "str_run ic (p # ps) (b, c # cs, g) =
     (if char_eq ic p c then str_run ic ps (c # b, cs, g) else [])"

text \<open>\<open>\b\<close>: exactly one of the two neighbouring characters is a word character (the
  start and the end of the text count as non-word).\<close>

definition word_boundary :: "string \<Rightarrow> string \<Rightarrow> bool" where
  "word_boundary b s =
     ((case b of [] \<Rightarrow> False | p # _ \<Rightarrow> is_word p) \<noteq> (case s of [] \<Rightarrow> False | n # _ \<Rightarrow> is_word n))"

fun rx_run :: "bool \<Rightarrow> rx \<Rightarrow> mstate \<Rightarrow> mstate list" where
  "rx_run ic (Str w) st = str_run ic w st"
| "rx_run ic (Rep cl lo hi) (b, s, g) =
     (let m = length (takeWhile (class_ok cl) s);
          top = (case hi of None \<Rightarrow> m | Some h \<Rightarrow> min m h)
      in map (\<lambda>k. (rev (take k s) @ b, drop k s, g)) (rev [lo..<Suc top]))"
| "rx_run ic (Seq r1 r2) st = concat (map (rx_run ic r2) (rx_run ic r1 st))"
| "rx_run ic (Opt r) st = rx_run ic r st @ [st]"
| "rx_run ic (Grp r) (b, s, g) =
     map (\<lambda>(b', s', _). (b', s', Some (take (length s - length s') s))) (rx_run ic r (b, s, g))"
| "rx_run ic WordB (b, s, g) = (if word_boundary b s then [(b, s, g)] else [])"
| "rx_run ic Bol (b, s, g) = (if b = [] then [(b, s, g)] else [])"
| "rx_run ic Eol (b, s, g) = (if s = [] \<or> s = [CHR 0x0A] then [(b, s, g)] else [])"

record pattern =
  expr :: rx
  ignorecase :: bool

text \<open>A match object: the text before the match, the matched text, the text after it
  and \<open>group(1)\<close> (\<open>None\<close> when the group took no part in the match).\<close>

record match =
  m_before :: string
  m_text :: string
  m_after :: string
  group1 :: "string option"

definition run_at :: "pattern \<Rightarrow> string \<Rightarrow> string \<Rightarrow> match option" where
  "run_at p b s =
     (case rx_run (ignorecase p) (expr p) (b, s, None) of
        [] \<Rightarrow> None
      | (b', s', g) # _ \<Rightarrow>
          Some \<lparr>m_before = rev b, m_text = take (length s - length s') s, m_after = s', group1 = g\<rparr>)"

text \<open>\<open>pattern.match(s)\<close>: a match at the start of the text.\<close>

definition re_match :: "pattern \<Rightarrow> string \<Rightarrow> match option" where
  "re_match p s = run_at p [] s"

text \<open>\<open>pattern.search(s)\<close>: the match at the leftmost position that has one.\<close>

fun search_from :: "pattern \<Rightarrow> string \<Rightarrow> string \<Rightarrow> match option" where
  "search_from p b [] = run_at p b []"
| "search_from p b (c # cs) =
     (case run_at p b (c # cs) of
        Some m \<Rightarrow> Some m
      | None \<Rightarrow> search_from p (c # b) cs)"

definition re_search :: "pattern \<Rightarrow> string \<Rightarrow> match option" where
  "re_search p s = search_from p [] s"

subsection \<open>The patterns of the module\<close>

text \<open>\<^verbatim>\<open>DP_SUCCESS_RE = re.compile(r"\bsuccessfully completed\b", re.IGNORECASE)\<close>\<close>

definition DP_SUCCESS_RE :: pattern where
  "DP_SUCCESS_RE =
     \<lparr>expr = Seq WordB (Seq (Str ''successfully completed'') WordB), ignorecase = True\<rparr>"

text \<open>\<^verbatim>\<open>DP_COMPLETED_WITH_ERRORS_RE = re.compile(r"\bcompleted with\s+(\d+)\s+error", re.IGNORECASE)\<close>\<close>

definition DP_COMPLETED_WITH_ERRORS_RE :: pattern where
  "DP_COMPLETED_WITH_ERRORS_RE =
     \<lparr>expr = Seq WordB (Seq (Str ''completed with'') (Seq (Rep Space 1 None)
               (Seq (Grp (Rep Digit 1 None)) (Seq (Rep Space 1 None) (Str ''error''))))),
      ignorecase = True\<rparr>"

text \<open>\<^verbatim>\<open>DP_COMPLETED_WITH_ERRORS_RE2 = re.compile(r"\bcompleted with\s+error", re.IGNORECASE)\<close>\<close>

definition DP_COMPLETED_WITH_ERRORS_RE2 :: pattern where
  "DP_COMPLETED_WITH_ERRORS_RE2 =
     \<lparr>expr = Seq WordB (Seq (Str ''completed with'') (Seq (Rep Space 1 None) (Str ''error''))),
      ignorecase = True\<rparr>"

text \<open>\<^verbatim>\<open>DP_COMPLETED_RE = re.compile(r"\bcompleted\b", re.IGNORECASE)\<close>\<close>

definition DP_COMPLETED_RE :: pattern where
  "DP_COMPLETED_RE = \<lparr>expr = Seq WordB (Seq (Str ''completed'') WordB), ignorecase = True\<rparr>"


text \<open>\<^verbatim>\<open>INTEGER_LINE_RE = re.compile(r"^\s*(\d{1,12})\s*$")\<close>\<close>

definition INTEGER_LINE_RE :: pattern where
  "INTEGER_LINE_RE =
     \<lparr>expr = Seq Bol (Seq (Rep Space 0 None) (Seq (Grp (Rep Digit 1 (Some 12)))
               (Seq (Rep Space 0 None) Eol))),
      ignorecase = False\<rparr>"

subsection \<open>Parsing helpers\<close>

text \<open>\<open>_dp_completion_state_and_errors\<close>: the four patterns in the order of the source;
  the \<open>except\<close> around \<open>int(m.group(1))\<close> keeps the state and gives no count.\<close>

definition dp_completion_state_and_errors :: "string \<Rightarrow> string \<times> int option" where
  "dp_completion_state_and_errors txt =
     (if re_search DP_SUCCESS_RE txt \<noteq> None then (''SUCCESS'', Some 0)
      else
        (case re_search DP_COMPLETED_WITH_ERRORS_RE txt of
           Some m \<Rightarrow>
             (case group1 m of
                None \<Rightarrow> (''COMPLETED_WITH_ERRORS'', None)
              | Some ds \<Rightarrow> (''COMPLETED_WITH_ERRORS'', py_int ds))
         | None \<Rightarrow>
             if re_search DP_COMPLETED_WITH_ERRORS_RE2 txt \<noteq> None
             then (''COMPLETED_WITH_ERRORS'', None)
             else if re_search DP_COMPLETED_RE txt \<noteq> None then (''COMPLETED'', None)
             else (''NONE'', None)))"

text \<open>\<^verbatim>\<open>ORA_RE = re.compile(r"\b(ORA-\d{5})\b", re.IGNORECASE)\<close>\<close>

definition ORA_RE :: pattern where
  "ORA_RE =
     \<lparr>expr = Seq WordB (Seq (Grp (Seq (Str ''ORA-'') (Rep Digit 5 (Some 5)))) WordB),
      ignorecase = True\<rparr>"

text \<open>\<open>pattern.findall(s)\<close> for a pattern with one group: the group's text of every
  match, from left to right, each search starting where the last match ended. (No pattern
  used with it matches the empty string; a position with an empty match is stepped over.)\<close>

fun findall_from :: "pattern \<Rightarrow> string \<Rightarrow> string \<Rightarrow> string list" where
  "findall_from p b [] = []"
| "findall_from p b (c # cs) =
     (case rx_run (ignorecase p) (expr p) (b, c # cs, None) of
        [] \<Rightarrow> findall_from p (c # b) cs
      | (b', s', g) # _ \<Rightarrow>
          if length s' < length (c # cs)
          then (case g of None \<Rightarrow> [] | Some t \<Rightarrow> t) # findall_from p b' s'
          else findall_from p (c # b) cs)"

definition findall :: "pattern \<Rightarrow> string \<Rightarrow> string list" where
  "findall p s = findall_from p [] s"

text \<open>\<open>re.split(pattern, s)\<close> for a pattern without a group: the pieces between the
  matches. (The pattern used with it, \<open>\s{2,}\<close>, never matches the empty string; a
  position with an empty match is stepped over.)\<close>

fun split_from :: "pattern \<Rightarrow> string \<Rightarrow> string \<Rightarrow> string \<Rightarrow> string list" where
  "split_from p b cur [] = [rev cur]"
| "split_from p b cur (c # cs) =
     (case rx_run (ignorecase p) (expr p) (b, c # cs, None) of
        [] \<Rightarrow> split_from p (c # b) (c # cur) cs
      | (b', s', g) # _ \<Rightarrow>
          if length s' < length (c # cs)
          then rev cur # split_from p b' [] s'
          else split_from p (c # b) (c # cur) cs)"

definition re_split :: "pattern \<Rightarrow> string \<Rightarrow> string list" where
  "re_split p s = split_from p [] [] s"

subsection \<open>Data structures\<close>

text \<open>\<open>LogResult\<close>. The dictionary \<open>ora_counts\<close> is the list of its items in insertion
  order, with distinct keys.\<close>

record LogResult =
  key_rel :: string
  found :: bool
  log_text :: "string option"
  ora_counts :: "(string \<times> int) list"
  dp_state :: string
  dp_error_count :: "int option"


subsection \<open>Severity taxonomy and risk weights\<close>

definition FATAL_ORA :: "string list" where
  "FATAL_ORA = [''ORA-39000'', ''ORA-31640'', ''ORA-27037'']"

definition WARN_ORA :: "string list" where
  "WARN_ORA = [''ORA-31642'', ''ORA-39127'', ''ORA-44002'', ''ORA-06550'', ''ORA-39082'']"

text \<open>The keys of \<open>RISK_WEIGHTS\<close> and the table itself.\<close>

datatype risk_key =
    missing_required_log
  | missing_impdp_log
  | impdp_retry_present
  | fatal_ora_present
  | warn_ora_present
  | dp_completion_marker_missing
  | expdp_completed_with_errors
  | validation_invalid_objects_present
  | validation_orders_count_missing

fun RISK_WEIGHTS :: "risk_key \<Rightarrow> int" where
  "RISK_WEIGHTS missing_required_log = 15"
| "RISK_WEIGHTS missing_impdp_log = 25"
| "RISK_WEIGHTS impdp_retry_present = 10"
| "RISK_WEIGHTS fatal_ora_present = 50"
| "RISK_WEIGHTS warn_ora_present = 15"
| "RISK_WEIGHTS dp_completion_marker_missing = 10"
| "RISK_WEIGHTS expdp_completed_with_errors = 10"
| "RISK_WEIGHTS validation_invalid_objects_present = 25"
| "RISK_WEIGHTS validation_orders_count_missing = 5"

subsection \<open>Log analysis and attempt selection\<close>

text \<open>\<open>_parse_ora_counts\<close>\<close>

definition parse_ora_counts :: "string \<Rightarrow> (string \<times> int) list" where
  "parse_ora_counts txt =
     fold (\<lambda>code counts.
             let cu = upper code
             in AList.update cu ((case map_of counts cu of None \<Rightarrow> 0 | Some n \<Rightarrow> n) + 1) counts)
          (findall ORA_RE txt) []"


text \<open>\<open>_analyze_log\<close>, on the result of the fetch (\<open>None\<close>: no such object).\<close>

definition analyze_log :: "string \<Rightarrow> string option \<Rightarrow> LogResult" where
  "analyze_log rel_key fetched =
     (case fetched of
        None \<Rightarrow>
          \<lparr>key_rel = rel_key, found = False, log_text = None, ora_counts = [],
           dp_state = ''NONE'', dp_error_count = None\<rparr>
      | Some txt \<Rightarrow>
          (let (st, errs) = dp_completion_state_and_errors txt
           in \<lparr>key_rel = rel_key, found = True, log_text = Some txt,
               ora_counts = parse_ora_counts txt, dp_state = st, dp_error_count = errs\<rparr>))"






subsection \<open>Bounded excerpts\<close>







subsection \<open>Validation proof parsing\<close>

text \<open>The pattern of \<^verbatim>\<open>re.split(r"\s{2,}", s)\<close>.\<close>

definition TWO_SPACES_RE :: pattern where
  "TWO_SPACES_RE = \<lparr>expr = Rep Space 2 None, ignorecase = False\<rparr>"

record invalid_object =
  owner :: string
  object_name :: string
  object_type :: string
  status :: string

record invalid_proof =
  count :: "int option"
  objects :: "invalid_object list"

text \<open>The loop of \<open>_parse_invalid_object_proof\<close> over the lines, with its state \<open>count\<close>
  and \<open>objects\<close>. \<open>set(s) <= set("- ")\<close> is the test that every character of \<open>s\<close> is
  a dash or a space.\<close>

fun invalid_rows :: "string list \<Rightarrow> int \<Rightarrow> invalid_object list \<Rightarrow> int \<times> invalid_object list" where
  "invalid_rows [] cnt objs = (cnt, objs)"
| "invalid_rows (ln # lns) cnt objs =
     (let s = strip ln
      in if s = [] then invalid_rows lns cnt objs
         else if startswith (upper s) ''OWNER'' \<or> set s \<subseteq> set ''- ''
         then invalid_rows lns cnt objs
         else
           (case re_split TWO_SPACES_RE s of
              p0 # p1 # p2 # p3 # _ \<Rightarrow>
                if upper p3 = ''INVALID''
                then invalid_rows lns (cnt + 1)
                       (objs @ [\<lparr>owner = p0, object_name = p1, object_type = p2, status = p3\<rparr>])
                else invalid_rows lns cnt objs
            | _ \<Rightarrow> invalid_rows lns cnt objs))"

text \<open>\<open>_parse_invalid_object_proof\<close>\<close>

definition parse_invalid_object_proof :: "string \<Rightarrow> invalid_proof" where
  "parse_invalid_object_proof txt =
     (if txt = [] then \<lparr>count = None, objects = []\<rparr>
      else (let (cnt, objs) = invalid_rows (splitlines txt) 0 []
            in \<lparr>count = Some cnt, objects = objs\<rparr>))"

text \<open>The loop of \<open>_parse_orders_count_proof\<close>: the first line the pattern matches decides
  (an exception of \<open>int\<close> gives \<open>None\<close> there).\<close>

fun orders_lines :: "string list \<Rightarrow> int option" where
  "orders_lines [] = None"
| "orders_lines (ln # lns) =
     (case re_match INTEGER_LINE_RE ln of
        Some m \<Rightarrow> (case group1 m of Some ds \<Rightarrow> py_int ds | None \<Rightarrow> None)
      | None \<Rightarrow> orders_lines lns)"

text \<open>\<open>_parse_orders_count_proof\<close>\<close>

definition parse_orders_count_proof :: "string \<Rightarrow> int option" where
  "parse_orders_count_proof txt = (if txt = [] then None else orders_lines (splitlines txt))"

record validation =
  v_status :: string
  invalid_objects_count :: "int option"
  invalid_objects_sample :: "invalid_object list"
  orders_count :: "int option"
  evidence_invalid_object_proof :: bool
  evidence_orders_count_proof :: bool

text \<open>\<open>_parse_validation\<close>, on the results of the two fetches. \<open>x or ""\<close> is the text, or
  the empty text for \<open>None\<close>.\<close>

definition or_empty :: "string option \<Rightarrow> string" where
  "or_empty t = (case t of None \<Rightarrow> [] | Some s \<Rightarrow> s)"

definition parse_validation :: "string option \<Rightarrow> string option \<Rightarrow> validation" where
  "parse_validation invalid_txt orders_txt =
     (let invalid_parsed = parse_invalid_object_proof (or_empty invalid_txt);
          orders = parse_orders_count_proof (or_empty orders_txt);
          invalid_count = count invalid_parsed;
          st = (case invalid_count of
                  None \<Rightarrow> ''UNKNOWN''
                | Some n \<Rightarrow>
                    if n > 0 then ''WARN''
                    else if orders \<noteq> None then ''PASS'' else ''WARN'')
      in \<lparr>v_status = st,
          invalid_objects_count = invalid_count,
          invalid_objects_sample = take 20 (objects invalid_parsed),
          orders_count = orders,
          evidence_invalid_object_proof = (invalid_txt \<noteq> None),
          evidence_orders_count_proof = (orders_txt \<noteq> None)\<rparr>)"

subsection \<open>Risk and status\<close>

text \<open>\<open>_risk_level\<close>\<close>

definition risk_level :: "int \<Rightarrow> string" where
  "risk_level score = (if score \<ge> 70 then ''HIGH'' else if score \<ge> 35 then ''MEDIUM'' else ''LOW'')"

text \<open>The evidence of a factor: a text, a list of codes, the export log with its error
  count, or a number.\<close>

datatype evidence =
    EvText string
  | EvCodes "string list"
  | EvLog string "int option"
  | EvCount int

record risk_factor =
  factor :: risk_key
  weight :: int
  evidence :: evidence

text \<open>\<open>(impdp.ora_counts if (impdp and impdp.found) else {}) or {}\<close>\<close>

definition imp_ora_of :: "LogResult option \<Rightarrow> (string \<times> int) list" where
  "imp_ora_of impdp =
     (case impdp of None \<Rightarrow> [] | Some lr \<Rightarrow> if found lr then ora_counts lr else [])"

definition is_found :: "LogResult option \<Rightarrow> bool" where
  "is_found lr = (case lr of None \<Rightarrow> False | Some r \<Rightarrow> found r)"

definition state_of :: "LogResult option \<Rightarrow> string" where
  "state_of lr = (case lr of None \<Rightarrow> [] | Some r \<Rightarrow> dp_state r)"

text \<open>\<open>_risk_score\<close>: the statements in the order of the source, each adding its weight to
  the score and its record to the factors.\<close>

definition add_factor ::
  "risk_key \<Rightarrow> evidence \<Rightarrow> int \<times> risk_factor list \<Rightarrow> int \<times> risk_factor list" where
  "add_factor k ev acc =
     (fst acc + RISK_WEIGHTS k, snd acc @ [\<lparr>factor = k, weight = RISK_WEIGHTS k, evidence = ev\<rparr>])"

definition risk_score ::
  "LogResult list \<Rightarrow> LogResult option \<Rightarrow> int \<Rightarrow> LogResult option \<Rightarrow> validation
     \<Rightarrow> int \<times> risk_factor list" where
  "risk_score required_logs impdp impdp_count expdp val =
     (let a0 = fold (\<lambda>lr acc. if \<not> found lr
                               then add_factor missing_required_log (EvText (key_rel lr)) acc
                               else acc)
                    required_logs (0, []);
          a1 = (if \<not> is_found impdp
                then add_factor missing_impdp_log
                       (EvText ''No impdp log selected/found under 03-migration/'') a0
                else a0);
          a2 = (if impdp_count > 1
                then add_factor impdp_retry_present
                       (EvText (''impdp_log_count='' @ str_int impdp_count)) a1
                else a1);
          imp_ora = imp_ora_of impdp;
          fatal_codes = sort (filter (\<lambda>c. c \<in> set FATAL_ORA) (map fst imp_ora));
          warn_codes = sort (filter (\<lambda>c. c \<in> set WARN_ORA) (map fst imp_ora));
          fatal_present = (fatal_codes \<noteq> []);
          a3 = (if fatal_present then add_factor fatal_ora_present (EvCodes fatal_codes) a2
                else if warn_codes \<noteq> [] then add_factor warn_ora_present (EvCodes warn_codes) a2
                else a2);
          a4 = (if is_found impdp \<and> state_of impdp = ''NONE'' \<and> \<not> fatal_present
                then add_factor dp_completion_marker_missing
                       (EvText (case impdp of Some lr \<Rightarrow> key_rel lr | None \<Rightarrow> [])) a3
                else a3);
          a5 = (if is_found expdp \<and> state_of expdp = ''COMPLETED_WITH_ERRORS''
                then add_factor expdp_completed_with_errors
                       (case expdp of Some lr \<Rightarrow> EvLog (key_rel lr) (dp_error_count lr)
                        | None \<Rightarrow> EvLog [] None) a4
                else a4);
          a6 = (case invalid_objects_count val of
                  Some n \<Rightarrow>
                    if n > 0 then add_factor validation_invalid_objects_present (EvCount n) a5
                    else a5
                | None \<Rightarrow> a5);
          a7 = (if orders_count val = None
                then add_factor validation_orders_count_missing
                       (EvText ''orders_count_proof missing or unparseable'') a6
                else a6)
      in (min 100 (fst a7), snd a7))"

text \<open>\<open>_classify_status\<close>\<close>

definition classify_status ::
  "LogResult option \<Rightarrow> LogResult option \<Rightarrow> validation \<Rightarrow> int \<Rightarrow> string \<times> string list" where
  "classify_status expdp impdp val impdp_count =
     (let reasons0 = (if impdp_count > 1
                      then [''Multiple impdp attempts detected (count='' @ str_int impdp_count @ '').'']
                      else []);
          imp_ora = imp_ora_of impdp
      in if list_ex (\<lambda>c. c \<in> set FATAL_ORA) (map fst imp_ora)
         then (''FAIL'', reasons0 @ [''Fatal ORA codes detected in impdp.''])
         else
           (let reasons1 = (if v_status val = ''WARN''
                            then reasons0 @
                              [''Post-validation indicates WARN conditions (invalid objects present).'']
                            else reasons0)
            in if is_found impdp \<and> state_of impdp = ''COMPLETED_WITH_ERRORS''
               then (''WARN'', reasons1 @ [''impdp completed with errors.''])
               else if is_found expdp \<and> state_of expdp = ''COMPLETED_WITH_ERRORS''
               then (''WARN'', reasons1 @ [''expdp completed with errors.''])
               else if (is_found impdp \<and> state_of impdp = ''SUCCESS'')
                     \<and> (is_found expdp \<and> state_of expdp = ''SUCCESS'')
                     \<and> v_status val = ''PASS''
               then (''PASS'', reasons1)
               else (''WARN'', reasons1 @
                       [''Evidence present but not definitive SUCCESS for all phases.''])))"

subsection \<open>The handler's data-pump status\<close>

text \<open>The local function \<open>dp_status\<close> of \<open>lambda_handler\<close>.\<close>

definition dp_status :: "LogResult option \<Rightarrow> string" where
  "dp_status lr_opt =
     (case lr_opt of
        None \<Rightarrow> ''MISSING''
      | Some lr \<Rightarrow>
          if \<not> found lr then ''MISSING''
          else if list_ex (\<lambda>c. c \<in> set FATAL_ORA) (map fst (ora_counts lr)) then ''FAIL''
          else if dp_state lr = ''SUCCESS'' then ''PASS''
          else if dp_state lr = ''COMPLETED_WITH_ERRORS'' then ''WARN''
          else ''WARN'')"

text \<open>The handler's two log results: the export log is the allowlisted log whose key ends
  in \<open>expdp_legacy_18c.log\<close>, analyzed from its fetch; the import log is built from the
  text of the selected attempt, and is \<open>None\<close> when no attempt was selected (no key, or an
  empty one).\<close>

definition ALLOWLIST_RELATIVE_KEYS :: "string list" where
  "ALLOWLIST_RELATIVE_KEYS =
     [''02-precheck/precheck.log'', ''03-migration/expdp_legacy_18c.log'',
      ''04-validation/validation_23c.log'']"

definition handler_log_results :: "(string \<Rightarrow> string option) \<Rightarrow> LogResult list" where
  "handler_log_results fetch = map (\<lambda>rel. analyze_log rel (fetch rel)) ALLOWLIST_RELATIVE_KEYS"

definition handler_expdp_lr :: "LogResult list \<Rightarrow> LogResult option" where
  "handler_expdp_lr log_results =
     find (\<lambda>x. endswith (key_rel x) ''expdp_legacy_18c.log'') log_results"

definition handler_impdp_lr :: "string \<Rightarrow> string option \<Rightarrow> string \<Rightarrow> LogResult option" where
  "handler_impdp_lr run_prefix selected_impdp_abs impdp_text =
     (case selected_impdp_abs of
        None \<Rightarrow> None
      | Some k \<Rightarrow>
          if k = [] then None
          else
            (let (st, errs) = dp_completion_state_and_errors impdp_text
             in Some \<lparr>key_rel = replace k run_prefix [], found = True, log_text = Some impdp_text,
                      ora_counts = parse_ora_counts impdp_text, dp_state = st,
                      dp_error_count = errs\<rparr>))"

text \<open>The \<open>status\<close> entries of \<open>datapump["export"]\<close> and \<open>datapump["import"]\<close>.\<close>

definition datapump_status :: "LogResult option \<Rightarrow> LogResult option \<Rightarrow> string \<times> string" where
  "datapump_status expdp_lr impdp_lr = (dp_status expdp_lr, dp_status impdp_lr)"

section \<open>Notions used in the statements\<close>

text \<open>The mapping from error codes to counts contains a fatal code, or a warning code.\<close>

definition contains_fatal_code :: "(string \<times> int) list \<Rightarrow> bool" where
  "contains_fatal_code counts =
     (\<exists>(c, n) \<in> set counts. c = ''ORA-39000'' \<or> c = ''ORA-31640'' \<or> c = ''ORA-27037'')"

definition contains_warn_code :: "(string \<times> int) list \<Rightarrow> bool" where
  "contains_warn_code counts =
     (\<exists>(c, n) \<in> set counts. c = ''ORA-31642'' \<or> c = ''ORA-39127'' \<or> c = ''ORA-44002''
         \<or> c = ''ORA-06550'' \<or> c = ''ORA-39082'')"


text \<open>The condition of rule 6 of the status classifier.\<close>

definition pass_condition :: "LogResult option \<Rightarrow> LogResult option \<Rightarrow> validation \<Rightarrow> bool" where
  "pass_condition expdp impdp val =
     (\<not> contains_fatal_code (imp_ora_of impdp)
      \<and> (\<exists>i. impdp = Some i \<and> found i \<and> dp_state i = ''SUCCESS'')
      \<and> (\<exists>e. expdp = Some e \<and> found e \<and> dp_state e = ''SUCCESS'')
      \<and> v_status val = ''PASS'')"

text \<open>The factors that the risk model triggers, in the order of evaluation: one per
  missing required log, then each of the other factors when its condition holds.\<close>

definition triggered_factors ::
  "LogResult list \<Rightarrow> LogResult option \<Rightarrow> int \<Rightarrow> LogResult option \<Rightarrow> validation \<Rightarrow> risk_key list" where
  "triggered_factors required_logs impdp impdp_count expdp val =
     map (\<lambda>lr. missing_required_log) (filter (\<lambda>lr. \<not> found lr) required_logs)
     @ (if is_found impdp then [] else [missing_impdp_log])
     @ (if impdp_count > 1 then [impdp_retry_present] else [])
     @ (if contains_fatal_code (imp_ora_of impdp) then [fatal_ora_present]
        else if contains_warn_code (imp_ora_of impdp) then [warn_ora_present] else [])
     @ (if is_found impdp \<and> state_of impdp = ''NONE'' \<and> \<not> contains_fatal_code (imp_ora_of impdp)
        then [dp_completion_marker_missing] else [])
     @ (if is_found expdp \<and> state_of expdp = ''COMPLETED_WITH_ERRORS''
        then [expdp_completed_with_errors] else [])
     @ (if (case invalid_objects_count val of None \<Rightarrow> False | Some n \<Rightarrow> n > 0)
        then [validation_invalid_objects_present] else [])
     @ (if orders_count val = None then [validation_orders_count_missing] else [])"

text \<open>The state of the scorer is sound: the score is the sum of the weights of the factors
  recorded, every weight is the one of the table, and the factors are the given ones.\<close>

definition acc_ok :: "int \<times> risk_factor list \<Rightarrow> risk_key list \<Rightarrow> bool" where
  "acc_ok acc ks =
     (fst acc = sum_list (map weight (snd acc))
      \<and> (\<forall>f \<in> set (snd acc). weight f = RISK_WEIGHTS (factor f))
      \<and> map factor (snd acc) = ks)"












section \<open>Example runs\<close>

definition NL :: string where
  "NL = [CHR 0x0A]"

definition ex_impdp_fatal :: LogResult where
  "ex_impdp_fatal =
     \<lparr>key_rel = ''03-migration/impdp_retry1.log'', found = True,
      log_text = Some ''ORA-39000: bad dump file specification. Job successfully completed'',
      ora_counts = [(''ORA-39000'', 1)], dp_state = ''SUCCESS'', dp_error_count = Some 0\<rparr>"

definition ex_impdp_ok :: LogResult where
  "ex_impdp_ok =
     \<lparr>key_rel = ''03-migration/impdp_final.log'', found = True,
      log_text = Some ''Job successfully completed'',
      ora_counts = [], dp_state = ''SUCCESS'', dp_error_count = Some 0\<rparr>"

definition ex_impdp_plain :: LogResult where
  "ex_impdp_plain =
     \<lparr>key_rel = ''03-migration/impdp_final.log'', found = True,
      log_text = Some ''Job completed'',
      ora_counts = [(''ORA-39082'', 2)], dp_state = ''COMPLETED'', dp_error_count = None\<rparr>"

definition ex_impdp_both :: LogResult where
  "ex_impdp_both =
     \<lparr>key_rel = ''03-migration/impdp_retry1.log'', found = True,
      log_text = Some ''ORA-39082: compilation warnings. ORA-39000: bad dump file specification'',
      ora_counts = [(''ORA-39082'', 1), (''ORA-39000'', 1)], dp_state = ''NONE'',
      dp_error_count = None\<rparr>"

definition ex_expdp_ok :: LogResult where
  "ex_expdp_ok =
     \<lparr>key_rel = ''03-migration/expdp_legacy_18c.log'', found = True,
      log_text = Some ''Job successfully completed'',
      ora_counts = [], dp_state = ''SUCCESS'', dp_error_count = Some 0\<rparr>"

definition ex_expdp_errors :: LogResult where
  "ex_expdp_errors =
     \<lparr>key_rel = ''03-migration/expdp_legacy_18c.log'', found = True,
      log_text = Some ''Job completed with 2 error(s)'',
      ora_counts = [], dp_state = ''COMPLETED_WITH_ERRORS'', dp_error_count = Some 2\<rparr>"

definition ex_missing :: "string \<Rightarrow> LogResult" where
  "ex_missing k =
     \<lparr>key_rel = k, found = False, log_text = None, ora_counts = [], dp_state = ''NONE'',
      dp_error_count = None\<rparr>"

definition ex_fetch :: "string \<Rightarrow> string option" where
  "ex_fetch rel =
     (if rel = ''03-migration/expdp_legacy_18c.log'' then Some ''Job completed with 2 error(s)''
      else None)"

definition ex_validation_pass :: validation where
  "ex_validation_pass =
     \<lparr>v_status = ''PASS'', invalid_objects_count = Some 0, invalid_objects_sample = [],
      orders_count = Some 50000, evidence_invalid_object_proof = True,
      evidence_orders_count_proof = True\<rparr>"

definition ex_validation_warn :: validation where
  "ex_validation_warn =
     \<lparr>v_status = ''WARN'', invalid_objects_count = Some 1,
      invalid_objects_sample =
        [\<lparr>owner = ''LEGACY_APP'', object_name = ''BAD_VIEW'', object_type = ''VIEW'',
          status = ''INVALID''\<rparr>],
      orders_count = Some 50000, evidence_invalid_object_proof = True,
      evidence_orders_count_proof = True\<rparr>"

definition ex_validation_none :: validation where
  "ex_validation_none =
     \<lparr>v_status = ''WARN'', invalid_objects_count = Some 2, invalid_objects_sample = [],
      orders_count = None, evidence_invalid_object_proof = True,
      evidence_orders_count_proof = False\<rparr>"

definition ex_invalid_header :: string where
  "ex_invalid_header =
     ''OWNER       OBJECT_NAME   OBJECT_TYPE   STATUS'' @ NL @
     ''----------  ------------  ------------  -------'' @ NL"

definition ex_invalid_one :: string where
  "ex_invalid_one = ex_invalid_header @ ''LEGACY_APP  BAD_VIEW      VIEW          INVALID'' @ NL"

definition ex_orders_proof :: string where
  "ex_orders_proof = ''ORDERS_COUNT'' @ NL @ ''------------'' @ NL @ ''      50000'' @ NL"



section \<open>The status classifier\<close>

lemma any_fatal_iff:
  "list_ex (\<lambda>c. c \<in> set FATAL_ORA) (map fst counts) = contains_fatal_code counts"
proof -
  have "list_ex (\<lambda>c. c \<in> set FATAL_ORA) (map fst counts) =
          (\<exists>p \<in> set counts. fst p \<in> set FATAL_ORA)"
    by (simp add: list_ex_iff)
  also have "\<dots> = (\<exists>(c, n) \<in> set counts. c \<in> set FATAL_ORA)"
    by force
  finally show ?thesis by (simp add: FATAL_ORA_def contains_fatal_code_def)
qed

lemma is_found_state:
  "(is_found lr \<and> state_of lr = s) = (\<exists>r. lr = Some r \<and> found r \<and> dp_state r = s)"
  by (cases lr) (auto simp: is_found_def state_of_def)

text \<open>
  Claim C1. Whenever the selected import log was found and its mapping from error codes to
  counts contains one of the fatal codes ORA-39000, ORA-31640, ORA-27037, the status
  classifier returns FAIL, whatever the export log, the validation result and the number
  of attempts are (the risk score is no argument of the classifier).
\<close>

theorem C1_fatal_code_forces_FAIL:
  assumes "impdp = Some lr" and "found lr"
    and "(c, n) \<in> set (ora_counts lr)"
    and "c = ''ORA-39000'' \<or> c = ''ORA-31640'' \<or> c = ''ORA-27037''"
  shows "fst (classify_status expdp impdp val impdp_count) = ''FAIL''"
proof -
  have "contains_fatal_code (imp_ora_of impdp)"
    using assms by (auto simp: imp_ora_of_def contains_fatal_code_def)
  then show ?thesis by (simp add: classify_status_def Let_def any_fatal_iff)
qed

text \<open>The disagreement case: a fatal code in an import log that ends with the success
  phrase, a successful export and a passing validation. The log result is the one the
  handler builds from the text.\<close>

theorem C1_fatal_code_forces_FAIL_witness:
  "fst (classify_status (Some ex_expdp_ok) (Some ex_impdp_fatal) ex_validation_pass 1) = ''FAIL''
   \<and> handler_impdp_lr ''runs/1/'' (Some ''runs/1/03-migration/impdp_retry1.log'')
        ''ORA-39000: bad dump file specification. Job successfully completed''
       = Some ex_impdp_fatal"
proof -
  have f: "found ex_impdp_fatal" by (simp add: ex_impdp_fatal_def)
  have h: "(''ORA-39000'', 1) \<in> set (ora_counts ex_impdp_fatal)"
    by (simp add: ex_impdp_fatal_def)
  have "fst (classify_status (Some ex_expdp_ok) (Some ex_impdp_fatal) ex_validation_pass 1) = ''FAIL''"
    by (rule C1_fatal_code_forces_FAIL [OF refl f h]) simp
  moreover have "handler_impdp_lr ''runs/1/'' (Some ''runs/1/03-migration/impdp_retry1.log'')
        ''ORA-39000: bad dump file specification. Job successfully completed''
       = Some ex_impdp_fatal"
    by code_simp
  ultimately show ?thesis by simp
qed

text \<open>
  Claim C6. The status classifier returns PASS exactly when the selected import log has no
  fatal code, the export log and the import log are both found with completion state
  SUCCESS, and the validation status is PASS. Its result is always one of FAIL, WARN and
  PASS. When no earlier rule applies (no fatal code, neither log found with state
  COMPLETED_WITH_ERRORS, and not the PASS condition), it returns WARN, and the last reason
  is the generic one.
\<close>

theorem C6_PASS_iff_and_default_WARN:
  "(fst (classify_status expdp impdp val n) = ''PASS'') = pass_condition expdp impdp val
   \<and> fst (classify_status expdp impdp val n) \<in> {''FAIL'', ''WARN'', ''PASS''}
   \<and> (\<not> contains_fatal_code (imp_ora_of impdp)
        \<and> \<not> (\<exists>i. impdp = Some i \<and> found i \<and> dp_state i = ''COMPLETED_WITH_ERRORS'')
        \<and> \<not> (\<exists>e. expdp = Some e \<and> found e \<and> dp_state e = ''COMPLETED_WITH_ERRORS'')
        \<and> \<not> pass_condition expdp impdp val
      \<longrightarrow> fst (classify_status expdp impdp val n) = ''WARN''
          \<and> last (snd (classify_status expdp impdp val n)) =
              ''Evidence present but not definitive SUCCESS for all phases.'')"
  unfolding pass_condition_def is_found_state [symmetric] any_fatal_iff [symmetric]
  by (simp add: classify_status_def Let_def)

theorem C6_PASS_iff_and_default_WARN_witness:
  "pass_condition (Some ex_expdp_ok) (Some ex_impdp_ok) ex_validation_pass
   \<and> fst (classify_status (Some ex_expdp_ok) (Some ex_impdp_ok) ex_validation_pass 1) = ''PASS''
   \<and> \<not> pass_condition (Some ex_expdp_ok) (Some ex_impdp_plain) ex_validation_pass
   \<and> fst (classify_status (Some ex_expdp_ok) (Some ex_impdp_plain) ex_validation_pass 2) = ''WARN''
   \<and> last (snd (classify_status (Some ex_expdp_ok) (Some ex_impdp_plain) ex_validation_pass 2)) =
        ''Evidence present but not definitive SUCCESS for all phases.''"
proof -
  have p: "pass_condition (Some ex_expdp_ok) (Some ex_impdp_ok) ex_validation_pass"
    by (simp add: pass_condition_def contains_fatal_code_def imp_ora_of_def ex_expdp_ok_def
          ex_impdp_ok_def ex_validation_pass_def)
  have np: "\<not> pass_condition (Some ex_expdp_ok) (Some ex_impdp_plain) ex_validation_pass"
    by (simp add: pass_condition_def ex_impdp_plain_def)
  have h: "\<not> contains_fatal_code (imp_ora_of (Some ex_impdp_plain))
        \<and> \<not> (\<exists>i. Some ex_impdp_plain = Some i \<and> found i \<and> dp_state i = ''COMPLETED_WITH_ERRORS'')
        \<and> \<not> (\<exists>e. Some ex_expdp_ok = Some e \<and> found e \<and> dp_state e = ''COMPLETED_WITH_ERRORS'')"
    by (simp add: contains_fatal_code_def imp_ora_of_def ex_impdp_plain_def ex_expdp_ok_def)
  from C6_PASS_iff_and_default_WARN [of "Some ex_expdp_ok" "Some ex_impdp_ok" ex_validation_pass 1] p
  have 1: "fst (classify_status (Some ex_expdp_ok) (Some ex_impdp_ok) ex_validation_pass 1) = ''PASS''"
    by blast
  from C6_PASS_iff_and_default_WARN [of "Some ex_expdp_ok" "Some ex_impdp_plain" ex_validation_pass 2]
    np h
  have 2: "fst (classify_status (Some ex_expdp_ok) (Some ex_impdp_plain) ex_validation_pass 2) = ''WARN''
     \<and> last (snd (classify_status (Some ex_expdp_ok) (Some ex_impdp_plain) ex_validation_pass 2)) =
        ''Evidence present but not definitive SUCCESS for all phases.''"
    by blast
  from p np 1 2 show ?thesis by blast
qed

text \<open>
  Claim C9. The data-pump status that the handler reports for a phase: MISSING for a log
  that is missing or was not selected; FAIL for a found log with a fatal code, also when
  its completion state is SUCCESS; PASS exactly for a found log with state SUCCESS and no
  fatal code; WARN for every other found log. The Summary's two entries are this status
  of the export log and of the import log.
\<close>

theorem C9_dp_status:
  "(lr_opt = None \<or> (\<exists>lr. lr_opt = Some lr \<and> \<not> found lr) \<longrightarrow> dp_status lr_opt = ''MISSING'')
   \<and> (\<forall>lr. lr_opt = Some lr \<and> found lr \<and> contains_fatal_code (ora_counts lr)
          \<longrightarrow> dp_status lr_opt = ''FAIL'')
   \<and> ((dp_status lr_opt = ''PASS'') =
        (\<exists>lr. lr_opt = Some lr \<and> found lr \<and> dp_state lr = ''SUCCESS''
              \<and> \<not> contains_fatal_code (ora_counts lr)))
   \<and> (\<forall>lr. lr_opt = Some lr \<and> found lr \<and> \<not> contains_fatal_code (ora_counts lr)
            \<and> dp_state lr \<noteq> ''SUCCESS''
          \<longrightarrow> dp_status lr_opt = ''WARN'')
   \<and> datapump_status expdp_lr impdp_lr = (dp_status expdp_lr, dp_status impdp_lr)"
  by (cases lr_opt) (simp_all add: dp_status_def any_fatal_iff datapump_status_def)

theorem C9_dp_status_witness:
  "dp_status (Some ex_impdp_fatal) = ''FAIL''
   \<and> dp_status None = ''MISSING''
   \<and> dp_status (Some (ex_missing ''03-migration/expdp_legacy_18c.log'')) = ''MISSING''
   \<and> dp_status (Some ex_impdp_ok) = ''PASS''
   \<and> dp_status (Some ex_impdp_plain) = ''WARN''
   \<and> dp_status (Some ex_expdp_errors) = ''WARN''
   \<and> datapump_status (Some ex_expdp_errors) (Some ex_impdp_fatal) = (''WARN'', ''FAIL'')
   \<and> handler_expdp_lr (handler_log_results ex_fetch) = Some ex_expdp_errors"
proof -
  have hl: "handler_expdp_lr (handler_log_results ex_fetch) = Some ex_expdp_errors"
    by code_simp
  have a: "found ex_impdp_fatal \<and> contains_fatal_code (ora_counts ex_impdp_fatal)"
    by (simp add: ex_impdp_fatal_def contains_fatal_code_def)
  have b: "\<not> found (ex_missing ''03-migration/expdp_legacy_18c.log'')"
    by (simp add: ex_missing_def)
  have c: "found ex_impdp_ok \<and> dp_state ex_impdp_ok = ''SUCCESS''
             \<and> \<not> contains_fatal_code (ora_counts ex_impdp_ok)"
    by (simp add: ex_impdp_ok_def contains_fatal_code_def)
  have d: "found ex_impdp_plain \<and> \<not> contains_fatal_code (ora_counts ex_impdp_plain)
             \<and> dp_state ex_impdp_plain \<noteq> ''SUCCESS''"
    by (simp add: ex_impdp_plain_def contains_fatal_code_def)
  have e: "found ex_expdp_errors \<and> \<not> contains_fatal_code (ora_counts ex_expdp_errors)
             \<and> dp_state ex_expdp_errors \<noteq> ''SUCCESS''"
    by (simp add: ex_expdp_errors_def contains_fatal_code_def)
  have 1: "dp_status (Some ex_impdp_fatal) = ''FAIL''"
    using C9_dp_status [of "Some ex_impdp_fatal" None None] a by blast
  have 2: "dp_status None = ''MISSING''"
    using C9_dp_status [of None None None] by blast
  have 3: "dp_status (Some (ex_missing ''03-migration/expdp_legacy_18c.log'')) = ''MISSING''"
    using C9_dp_status [of "Some (ex_missing ''03-migration/expdp_legacy_18c.log'')" None None] b
    by blast
  have 4: "dp_status (Some ex_impdp_ok) = ''PASS''"
    using C9_dp_status [of "Some ex_impdp_ok" None None] c by blast
  have 5: "dp_status (Some ex_impdp_plain) = ''WARN''"
    using C9_dp_status [of "Some ex_impdp_plain" None None] d by blast
  have 6: "dp_status (Some ex_expdp_errors) = ''WARN''"
    using C9_dp_status [of "Some ex_expdp_errors" None None] e by blast
  have 7: "datapump_status (Some ex_expdp_errors) (Some ex_impdp_fatal) = (''WARN'', ''FAIL'')"
    using C9_dp_status [of None "Some ex_expdp_errors" "Some ex_impdp_fatal"] 1 6 by simp
  from 1 2 3 4 5 6 7 hl show ?thesis by blast
qed

section \<open>The matcher\<close>









section \<open>The integer-only line\<close>








section \<open>The validation parser\<close>

lemma invalid_rows_nonneg: "0 \<le> cnt \<Longrightarrow> 0 \<le> fst (invalid_rows lns cnt objs)"
proof (induction lns arbitrary: cnt objs)
  case Nil
  then show ?case by simp
next
  case (Cons ln lns)
  have "0 \<le> fst (invalid_rows lns cnt os)" "0 \<le> fst (invalid_rows lns (cnt + 1) os)" for os
    using Cons.IH [of cnt os] Cons.IH [of "cnt + 1" os] Cons.prems by simp_all
  then show ?case by (simp add: Let_def split: list.splits)
qed

lemma parse_invalid_count_None: "(count (parse_invalid_object_proof txt) = None) = (txt = [])"
  by (simp add: parse_invalid_object_proof_def split: prod.splits)

lemma parse_invalid_empty: "count (parse_invalid_object_proof []) = None"
  by (simp add: parse_invalid_object_proof_def)

lemma parse_invalid_count_nonneg: "count (parse_invalid_object_proof txt) = Some n \<Longrightarrow> 0 \<le> n"
  using invalid_rows_nonneg [of 0 "splitlines txt" "[]"]
  by (auto simp: parse_invalid_object_proof_def split: prod.splits if_splits)

lemma parse_validation_fields:
  "invalid_objects_count (parse_validation invalid_txt orders_txt) =
     count (parse_invalid_object_proof (or_empty invalid_txt))"
  "orders_count (parse_validation invalid_txt orders_txt) =
     parse_orders_count_proof (or_empty orders_txt)"
  "v_status (parse_validation invalid_txt orders_txt) =
     (case count (parse_invalid_object_proof (or_empty invalid_txt)) of
        None \<Rightarrow> ''UNKNOWN''
      | Some n \<Rightarrow>
          if n > 0 then ''WARN''
          else if parse_orders_count_proof (or_empty orders_txt) \<noteq> None then ''PASS''
          else ''WARN'')"
  "evidence_invalid_object_proof (parse_validation invalid_txt orders_txt) = (invalid_txt \<noteq> None)"
  by (simp_all add: parse_validation_def Let_def)

text \<open>
  Claim C2. The validation status is UNKNOWN exactly when the invalid-object count is null;
  it is WARN when the count is greater than 0, whatever the row count is; PASS when the
  count is 0 and the row count is present; WARN when the count is 0 and the row count is
  null. The count is never negative, so these are all the cases.
\<close>

theorem C2_validation_status:
  "((v_status (parse_validation invalid_txt orders_txt) = ''UNKNOWN'')
      = (invalid_objects_count (parse_validation invalid_txt orders_txt) = None))
   \<and> (\<forall>n. invalid_objects_count (parse_validation invalid_txt orders_txt) = Some n \<and> n > 0
          \<longrightarrow> v_status (parse_validation invalid_txt orders_txt) = ''WARN'')
   \<and> (invalid_objects_count (parse_validation invalid_txt orders_txt) = Some 0
        \<and> orders_count (parse_validation invalid_txt orders_txt) \<noteq> None
          \<longrightarrow> v_status (parse_validation invalid_txt orders_txt) = ''PASS'')
   \<and> (invalid_objects_count (parse_validation invalid_txt orders_txt) = Some 0
        \<and> orders_count (parse_validation invalid_txt orders_txt) = None
          \<longrightarrow> v_status (parse_validation invalid_txt orders_txt) = ''WARN'')
   \<and> (\<forall>n. invalid_objects_count (parse_validation invalid_txt orders_txt) = Some n \<longrightarrow> 0 \<le> n)"
proof (cases "count (parse_invalid_object_proof (or_empty invalid_txt))")
  case None
  then show ?thesis by (simp add: parse_validation_fields)
next
  case (Some n)
  then have "0 \<le> n" by (rule parse_invalid_count_nonneg)
  with Some show ?thesis by (auto simp: parse_validation_fields)
qed

text \<open>The four cases of the specification, on proof files in the formats of the source:
  one INVALID row; no row and a row count of 50000; no row and no row-count file; no
  evidence at all.\<close>

theorem C2_validation_status_witness:
  "invalid_objects_count (parse_validation (Some ex_invalid_one) (Some ex_orders_proof)) = Some 1
   \<and> v_status (parse_validation (Some ex_invalid_one) (Some ex_orders_proof)) = ''WARN''
   \<and> invalid_objects_count (parse_validation (Some ex_invalid_header) (Some ex_orders_proof)) = Some 0
   \<and> orders_count (parse_validation (Some ex_invalid_header) (Some ex_orders_proof)) = Some 50000
   \<and> v_status (parse_validation (Some ex_invalid_header) (Some ex_orders_proof)) = ''PASS''
   \<and> orders_count (parse_validation (Some ex_invalid_header) None) = None
   \<and> v_status (parse_validation (Some ex_invalid_header) None) = ''WARN''
   \<and> invalid_objects_count (parse_validation None None) = None
   \<and> v_status (parse_validation None None) = ''UNKNOWN''"
proof -
  have a: "invalid_objects_count (parse_validation (Some ex_invalid_one) (Some ex_orders_proof)) = Some 1"
    by code_simp
  have b: "invalid_objects_count (parse_validation (Some ex_invalid_header) (Some ex_orders_proof)) = Some 0"
    "orders_count (parse_validation (Some ex_invalid_header) (Some ex_orders_proof)) = Some 50000"
    by code_simp+
  have c: "invalid_objects_count (parse_validation (Some ex_invalid_header) None) = Some 0"
    "orders_count (parse_validation (Some ex_invalid_header) None) = None"
    by code_simp+
  have d: "invalid_objects_count (parse_validation None None) = None"
    by code_simp
  have 1: "v_status (parse_validation (Some ex_invalid_one) (Some ex_orders_proof)) = ''WARN''"
    using C2_validation_status [of "Some ex_invalid_one" "Some ex_orders_proof"] a by simp
  have 2: "v_status (parse_validation (Some ex_invalid_header) (Some ex_orders_proof)) = ''PASS''"
    using C2_validation_status [of "Some ex_invalid_header" "Some ex_orders_proof"] b by simp
  have 3: "v_status (parse_validation (Some ex_invalid_header) None) = ''WARN''"
    using C2_validation_status [of "Some ex_invalid_header" None] c by simp
  have 4: "v_status (parse_validation None None) = ''UNKNOWN''"
    using C2_validation_status [of None None] d by simp
  from a b c(2) d 1 2 3 4 show ?thesis by simp
qed

text \<open>
  Claim C10. When the invalid-object proof exists and its text is empty, the invalid-object
  count is null and the status is UNKNOWN, while the evidence flag of the artifact is
  true. In general the count is null exactly when the artifact is absent or its text is
  empty, and the flag is true exactly when the artifact exists: the text's emptiness, not
  the artifact's existence, separates no evidence from zero invalid objects.
\<close>

theorem C10_empty_invalid_proof:
  "invalid_objects_count (parse_validation (Some []) orders_txt) = None
   \<and> v_status (parse_validation (Some []) orders_txt) = ''UNKNOWN''
   \<and> evidence_invalid_object_proof (parse_validation (Some []) orders_txt) = True
   \<and> ((invalid_objects_count (parse_validation invalid_txt orders_txt) = None)
        = (invalid_txt = None \<or> invalid_txt = Some []))
   \<and> (evidence_invalid_object_proof (parse_validation invalid_txt orders_txt)
        = (invalid_txt \<noteq> None))"
  by (cases invalid_txt)
     (simp_all add: parse_validation_fields parse_invalid_count_None parse_invalid_empty
        or_empty_def)

theorem C10_empty_invalid_proof_witness:
  "invalid_objects_count (parse_validation (Some []) (Some ex_orders_proof)) = None
   \<and> v_status (parse_validation (Some []) (Some ex_orders_proof)) = ''UNKNOWN''
   \<and> evidence_invalid_object_proof (parse_validation (Some []) (Some ex_orders_proof)) = True
   \<and> orders_count (parse_validation (Some []) (Some ex_orders_proof)) = Some 50000
   \<and> invalid_objects_count (parse_validation (Some ex_invalid_header) (Some ex_orders_proof)) \<noteq> None"
proof -
  have "orders_count (parse_validation (Some []) (Some ex_orders_proof)) = Some 50000"
    by code_simp
  moreover have "Some ex_invalid_header \<noteq> Some []"
    by (simp add: ex_invalid_header_def)
  ultimately show ?thesis
    using C10_empty_invalid_proof [of "Some ex_orders_proof" "Some ex_invalid_header"] by simp
qed

section \<open>The count-only extractor\<close>






section \<open>The completion-state extractor\<close>











section \<open>The risk scorer\<close>

lemma fatal_codes_iff:
  "(sort (filter (\<lambda>c. c \<in> set FATAL_ORA) (map fst counts)) \<noteq> []) = contains_fatal_code counts"
proof -
  have "(sort (filter (\<lambda>c. c \<in> set FATAL_ORA) (map fst counts)) \<noteq> []) =
          (set (sort (filter (\<lambda>c. c \<in> set FATAL_ORA) (map fst counts))) \<noteq> {})"
    by (simp only: set_empty)
  also have "\<dots> = (\<exists>p \<in> set counts. fst p \<in> set FATAL_ORA)"
    by auto
  also have "\<dots> = (\<exists>(c, n) \<in> set counts. c \<in> set FATAL_ORA)"
    by force
  finally show ?thesis by (simp add: FATAL_ORA_def contains_fatal_code_def)
qed

lemma warn_codes_iff:
  "(sort (filter (\<lambda>c. c \<in> set WARN_ORA) (map fst counts)) \<noteq> []) = contains_warn_code counts"
proof -
  have "(sort (filter (\<lambda>c. c \<in> set WARN_ORA) (map fst counts)) \<noteq> []) =
          (set (sort (filter (\<lambda>c. c \<in> set WARN_ORA) (map fst counts))) \<noteq> {})"
    by (simp only: set_empty)
  also have "\<dots> = (\<exists>p \<in> set counts. fst p \<in> set WARN_ORA)"
    by auto
  also have "\<dots> = (\<exists>(c, n) \<in> set counts. c \<in> set WARN_ORA)"
    by force
  finally show ?thesis by (simp add: WARN_ORA_def contains_warn_code_def)
qed

lemma acc_ok_init: "acc_ok (0, []) []"
  by (simp add: acc_ok_def)

lemma acc_ok_add: "acc_ok acc ks \<Longrightarrow> acc_ok (add_factor k ev acc) (ks @ [k])"
  by (auto simp: acc_ok_def add_factor_def)

lemma acc_ok_step:
  "acc_ok acc ks \<Longrightarrow> acc_ok (if c then add_factor k ev acc else acc) (ks @ (if c then [k] else []))"
  by (simp add: acc_ok_add)

lemma acc_ok_fold:
  "acc_ok acc ks \<Longrightarrow>
   acc_ok (fold (\<lambda>lr a. if \<not> found lr then add_factor k (ev lr) a else a) logs acc)
          (ks @ map (\<lambda>lr. k) (filter (\<lambda>lr. \<not> found lr) logs))"
proof (induction logs arbitrary: acc ks)
  case Nil
  then show ?case by simp
next
  case (Cons lr logs)
  show ?case
  proof (cases "found lr")
    case True
    then show ?thesis using Cons.IH [OF Cons.prems] by simp
  next
    case False
    then show ?thesis using Cons.IH [OF acc_ok_add [OF Cons.prems, of k "ev lr"]] by simp
  qed
qed

lemma risk_score_acc:
  "\<exists>acc. acc_ok acc (triggered_factors required_logs impdp impdp_count expdp val)
     \<and> risk_score required_logs impdp impdp_count expdp val = (min 100 (fst acc), snd acc)"
proof -
  define a0 where "a0 = fold (\<lambda>lr acc. if \<not> found lr
                               then add_factor missing_required_log (EvText (key_rel lr)) acc
                               else acc) required_logs (0, [])"
  define k0 where "k0 = map (\<lambda>lr. missing_required_log) (filter (\<lambda>lr. \<not> found lr) required_logs)"
  have ok0: "acc_ok a0 k0"
    unfolding a0_def k0_def using acc_ok_fold [OF acc_ok_init, of missing_required_log "\<lambda>lr. EvText (key_rel lr)" required_logs]
    by simp
  define a1 where "a1 = (if \<not> is_found impdp
                then add_factor missing_impdp_log
                       (EvText ''No impdp log selected/found under 03-migration/'') a0
                else a0)"
  define k1 where "k1 = k0 @ (if \<not> is_found impdp then [missing_impdp_log] else [])"
  have ok1: "acc_ok a1 k1" unfolding a1_def k1_def by (rule acc_ok_step [OF ok0])
  define a2 where "a2 = (if impdp_count > 1
                then add_factor impdp_retry_present
                       (EvText (''impdp_log_count='' @ str_int impdp_count)) a1
                else a1)"
  define k2 where "k2 = k1 @ (if impdp_count > 1 then [impdp_retry_present] else [])"
  have ok2: "acc_ok a2 k2" unfolding a2_def k2_def by (rule acc_ok_step [OF ok1])
  define fatal_codes where "fatal_codes = sort (filter (\<lambda>c. c \<in> set FATAL_ORA) (map fst (imp_ora_of impdp)))"
  define warn_codes where "warn_codes = sort (filter (\<lambda>c. c \<in> set WARN_ORA) (map fst (imp_ora_of impdp)))"
  have fc: "(fatal_codes \<noteq> []) = contains_fatal_code (imp_ora_of impdp)"
    unfolding fatal_codes_def by (rule fatal_codes_iff)
  have wc: "(warn_codes \<noteq> []) = contains_warn_code (imp_ora_of impdp)"
    unfolding warn_codes_def by (rule warn_codes_iff)
  define a3 where "a3 = (if fatal_codes \<noteq> [] then add_factor fatal_ora_present (EvCodes fatal_codes) a2
                else if warn_codes \<noteq> [] then add_factor warn_ora_present (EvCodes warn_codes) a2
                else a2)"
  define k3 where "k3 = k2 @ (if contains_fatal_code (imp_ora_of impdp) then [fatal_ora_present]
        else if contains_warn_code (imp_ora_of impdp) then [warn_ora_present] else [])"
  have ok3: "acc_ok a3 k3" unfolding a3_def k3_def fc wc
    using acc_ok_add [OF ok2] ok2 by simp
  define a4 where "a4 = (if is_found impdp \<and> state_of impdp = ''NONE'' \<and> \<not> (fatal_codes \<noteq> [])
                then add_factor dp_completion_marker_missing
                       (EvText (case impdp of Some lr \<Rightarrow> key_rel lr | None \<Rightarrow> [])) a3
                else a3)"
  define k4 where "k4 = k3 @ (if is_found impdp \<and> state_of impdp = ''NONE'' \<and> \<not> contains_fatal_code (imp_ora_of impdp)
        then [dp_completion_marker_missing] else [])"
  have ok4: "acc_ok a4 k4" unfolding a4_def k4_def fc by (rule acc_ok_step [OF ok3])
  define a5 where "a5 = (if is_found expdp \<and> state_of expdp = ''COMPLETED_WITH_ERRORS''
                then add_factor expdp_completed_with_errors
                       (case expdp of Some lr \<Rightarrow> EvLog (key_rel lr) (dp_error_count lr)
                        | None \<Rightarrow> EvLog [] None) a4
                else a4)"
  define k5 where "k5 = k4 @ (if is_found expdp \<and> state_of expdp = ''COMPLETED_WITH_ERRORS''
        then [expdp_completed_with_errors] else [])"
  have ok5: "acc_ok a5 k5" unfolding a5_def k5_def by (rule acc_ok_step [OF ok4])
  define a6 where "a6 = (case invalid_objects_count val of
                  Some n \<Rightarrow>
                    if n > 0 then add_factor validation_invalid_objects_present (EvCount n) a5
                    else a5
                | None \<Rightarrow> a5)"
  define k6 where "k6 = k5 @ (if (case invalid_objects_count val of None \<Rightarrow> False | Some n \<Rightarrow> n > 0)
        then [validation_invalid_objects_present] else [])"
  have ok6: "acc_ok a6 k6" unfolding a6_def k6_def
    using acc_ok_add [OF ok5] ok5 by (simp split: option.splits)
  define a7 where "a7 = (if orders_count val = None
                then add_factor validation_orders_count_missing
                       (EvText ''orders_count_proof missing or unparseable'') a6
                else a6)"
  define k7 where "k7 = k6 @ (if orders_count val = None then [validation_orders_count_missing] else [])"
  have ok7: "acc_ok a7 k7" unfolding a7_def k7_def by (rule acc_ok_step [OF ok6])
  have k: "k7 = triggered_factors required_logs impdp impdp_count expdp val"
    unfolding k7_def k6_def k5_def k4_def k3_def k2_def k1_def k0_def triggered_factors_def
    by simp
  have r: "risk_score required_logs impdp impdp_count expdp val = (min 100 (fst a7), snd a7)"
    unfolding risk_score_def Let_def a7_def a6_def a5_def a4_def a3_def a2_def a1_def a0_def
      fatal_codes_def warn_codes_def
    by (rule refl)
  show ?thesis using ok7 k r by blast
qed

lemma triggered_exclusive:
  "\<not> (fatal_ora_present \<in> set (triggered_factors required_logs impdp impdp_count expdp val)
      \<and> warn_ora_present \<in> set (triggered_factors required_logs impdp impdp_count expdp val))"
  by (auto simp: triggered_factors_def split: if_splits)

lemma triggered_fatal:
  "contains_fatal_code (imp_ora_of impdp) \<Longrightarrow>
   fatal_ora_present \<in> set (triggered_factors required_logs impdp impdp_count expdp val)"
  by (simp add: triggered_factors_def)

text \<open>
  Claim C4. The risk score is the sum of the weights of the factors it records, capped at
  100; every recorded weight is the one of the fixed table, and the recorded factors are
  exactly the triggered ones, in the order of evaluation. The fatal-code factor and the
  warn-code factor never fire together, and a fatal code in the found import log fires the
  fatal factor and not the warn factor. The level is HIGH iff the score is at least 70,
  MEDIUM iff it is at least 35 and below 70, LOW iff it is below 35.
\<close>

theorem C4_risk_score_and_level:
  "fst (risk_score required_logs impdp impdp_count expdp val) =
     min 100 (sum_list (map weight (snd (risk_score required_logs impdp impdp_count expdp val))))
   \<and> (\<forall>f \<in> set (snd (risk_score required_logs impdp impdp_count expdp val)).
         weight f = RISK_WEIGHTS (factor f))
   \<and> map factor (snd (risk_score required_logs impdp impdp_count expdp val)) =
       triggered_factors required_logs impdp impdp_count expdp val
   \<and> \<not> (fatal_ora_present \<in> factor ` set (snd (risk_score required_logs impdp impdp_count expdp val))
        \<and> warn_ora_present \<in> factor ` set (snd (risk_score required_logs impdp impdp_count expdp val)))
   \<and> (\<forall>lr. impdp = Some lr \<and> found lr \<and> contains_fatal_code (ora_counts lr) \<longrightarrow>
         fatal_ora_present \<in> factor ` set (snd (risk_score required_logs impdp impdp_count expdp val))
         \<and> warn_ora_present \<notin> factor ` set (snd (risk_score required_logs impdp impdp_count expdp val)))
   \<and> (risk_level score = ''HIGH'') = (score \<ge> 70)
   \<and> (risk_level score = ''MEDIUM'') = (35 \<le> score \<and> score < 70)
   \<and> (risk_level score = ''LOW'') = (score < 35)"
proof -
  obtain acc where ok: "acc_ok acc (triggered_factors required_logs impdp impdp_count expdp val)"
    and r: "risk_score required_logs impdp impdp_count expdp val = (min 100 (fst acc), snd acc)"
    using risk_score_acc by blast
  have names: "map factor (snd acc) = triggered_factors required_logs impdp impdp_count expdp val"
    using ok by (simp add: acc_ok_def)
  have img: "factor ` set (snd acc) = set (triggered_factors required_logs impdp impdp_count expdp val)"
    using names by (metis set_map)
  have 1: "fst (risk_score required_logs impdp impdp_count expdp val) =
     min 100 (sum_list (map weight (snd (risk_score required_logs impdp impdp_count expdp val))))"
    using ok by (simp add: r acc_ok_def)
  have 2: "\<forall>f \<in> set (snd (risk_score required_logs impdp impdp_count expdp val)).
         weight f = RISK_WEIGHTS (factor f)"
    using ok by (simp add: r acc_ok_def)
  have 3: "map factor (snd (risk_score required_logs impdp impdp_count expdp val)) =
       triggered_factors required_logs impdp impdp_count expdp val"
    using names by (simp add: r)
  have 4: "\<not> (fatal_ora_present \<in> factor ` set (snd (risk_score required_logs impdp impdp_count expdp val))
        \<and> warn_ora_present \<in> factor ` set (snd (risk_score required_logs impdp impdp_count expdp val)))"
    using triggered_exclusive [of required_logs impdp impdp_count expdp val] by (simp add: r img)
  have 5: "\<forall>lr. impdp = Some lr \<and> found lr \<and> contains_fatal_code (ora_counts lr) \<longrightarrow>
         fatal_ora_present \<in> factor ` set (snd (risk_score required_logs impdp impdp_count expdp val))
         \<and> warn_ora_present \<notin> factor ` set (snd (risk_score required_logs impdp impdp_count expdp val))"
  proof (intro allI impI)
    fix lr
    assume a: "impdp = Some lr \<and> found lr \<and> contains_fatal_code (ora_counts lr)"
    then have "contains_fatal_code (imp_ora_of impdp)" by (simp add: imp_ora_of_def)
    then have "fatal_ora_present \<in> set (triggered_factors required_logs impdp impdp_count expdp val)"
      by (rule triggered_fatal)
    with 4 show "fatal_ora_present \<in> factor ` set (snd (risk_score required_logs impdp impdp_count expdp val))
         \<and> warn_ora_present \<notin> factor ` set (snd (risk_score required_logs impdp impdp_count expdp val))"
      by (simp add: r img)
  qed
  have 6: "(risk_level score = ''HIGH'') = (score \<ge> 70)"
    "(risk_level score = ''MEDIUM'') = (35 \<le> score \<and> score < 70)"
    "(risk_level score = ''LOW'') = (score < 35)"
    by (auto simp: risk_level_def)
  from 1 2 3 4 5 6 show ?thesis by blast
qed

text \<open>Three runs: a missing required log, an export with errors and an invalid object
  (score 50, MEDIUM); every factor but the code factors (the sum 125 is capped at 100); a
  found import log with a warning code and a fatal code (only the fatal factor fires).\<close>

theorem C4_risk_score_and_level_witness:
  "fst (risk_score [ex_missing ''02-precheck/precheck.log'', ex_expdp_errors]
          (Some ex_impdp_ok) 1 (Some ex_expdp_errors) ex_validation_warn) = 50
   \<and> map factor (snd (risk_score [ex_missing ''02-precheck/precheck.log'', ex_expdp_errors]
          (Some ex_impdp_ok) 1 (Some ex_expdp_errors) ex_validation_warn))
       = [missing_required_log, expdp_completed_with_errors, validation_invalid_objects_present]
   \<and> risk_level 50 = ''MEDIUM''
   \<and> sum_list (map weight (snd (risk_score
          [ex_missing ''a'', ex_missing ''b'', ex_missing ''c'', ex_missing ''d'']
          None 3 None ex_validation_none))) = 125
   \<and> fst (risk_score [ex_missing ''a'', ex_missing ''b'', ex_missing ''c'', ex_missing ''d'']
          None 3 None ex_validation_none) = 100
   \<and> risk_level 100 = ''HIGH''
   \<and> fatal_ora_present \<in> factor ` set (snd (risk_score [] (Some ex_impdp_both) 1
          (Some ex_expdp_ok) ex_validation_pass))
   \<and> warn_ora_present \<notin> factor ` set (snd (risk_score [] (Some ex_impdp_both) 1
          (Some ex_expdp_ok) ex_validation_pass))"
proof -
  let ?A = "risk_score [ex_missing ''02-precheck/precheck.log'', ex_expdp_errors]
          (Some ex_impdp_ok) 1 (Some ex_expdp_errors) ex_validation_warn"
  let ?B = "risk_score [ex_missing ''a'', ex_missing ''b'', ex_missing ''c'', ex_missing ''d'']
          None 3 None ex_validation_none"
  let ?C = "risk_score [] (Some ex_impdp_both) 1 (Some ex_expdp_ok) ex_validation_pass"
  have sa: "sum_list (map weight (snd ?A)) = 50" by code_simp
  have ta: "triggered_factors [ex_missing ''02-precheck/precheck.log'', ex_expdp_errors]
          (Some ex_impdp_ok) 1 (Some ex_expdp_errors) ex_validation_warn
       = [missing_required_log, expdp_completed_with_errors, validation_invalid_objects_present]"
    by code_simp
  have sb: "sum_list (map weight (snd ?B)) = 125" by code_simp
  have fc: "found ex_impdp_both \<and> contains_fatal_code (ora_counts ex_impdp_both)"
    by (simp add: ex_impdp_both_def contains_fatal_code_def)
  note A = C4_risk_score_and_level [of "[ex_missing ''02-precheck/precheck.log'', ex_expdp_errors]"
      "Some ex_impdp_ok" 1 "Some ex_expdp_errors" ex_validation_warn 50]
  note B = C4_risk_score_and_level [of "[ex_missing ''a'', ex_missing ''b'', ex_missing ''c'', ex_missing ''d'']"
      None 3 None ex_validation_none 100]
  note C = C4_risk_score_and_level [of "[]" "Some ex_impdp_both" 1 "Some ex_expdp_ok"
      ex_validation_pass 0]
  have 1: "fst ?A = 50" using A sa by simp
  have 2: "map factor (snd ?A)
       = [missing_required_log, expdp_completed_with_errors, validation_invalid_objects_present]"
    using A ta by simp
  have 3: "risk_level 50 = ''MEDIUM''" using A by simp
  have 4: "fst ?B = 100" using B sb by simp
  have 5: "risk_level 100 = ''HIGH''" using B by simp
  have 6: "fatal_ora_present \<in> factor ` set (snd ?C) \<and> warn_ora_present \<notin> factor ` set (snd ?C)"
    using C fc by blast
  from 1 2 3 sb 4 5 6 show ?thesis by blast
qed

section \<open>The attempt selector\<close>






section \<open>The bounded excerpt extractor\<close>





























end
